theory Spec2Isabelle
  imports Main "HOL-Library.Word" "HOL-Library.Log_Nat"
begin

section \<open>Strings of the calculator\<close>

text \<open>
  A JavaScript string is a sequence of 16-bit code units. The calculator compares code
  units only, so a string is a list of 16-bit words; \<open>js\<close> turns an ASCII literal into
  such a list.
\<close>

type_synonym jsstring = "16 word list"

definition js :: "string \<Rightarrow> jsstring" where
  "js s = map of_char s"

text \<open>The characters matched by \<open>\s\<close> and removed by \<open>trim\<close>: white space and line terminators.\<close>

definition isWhiteSpace :: "16 word \<Rightarrow> bool" where
  "isWhiteSpace c =
     (c = 0x09 \<or> c = 0x0A \<or> c = 0x0B \<or> c = 0x0C \<or> c = 0x0D \<or> c = 0x20 \<or> c = 0xA0
      \<or> c = 0x1680 \<or> (0x2000 \<le> c \<and> c \<le> 0x200A) \<or> c = 0x2028 \<or> c = 0x2029
      \<or> c = 0x202F \<or> c = 0x205F \<or> c = 0x3000 \<or> c = 0xFEFF)"

definition trim :: "jsstring \<Rightarrow> jsstring" where
  "trim s = rev (dropWhile isWhiteSpace (rev (dropWhile isWhiteSpace s)))"

text \<open>\<open>s.replace(/\s+/g, '')\<close>: every white-space character is removed.\<close>

definition stripSpaces :: "jsstring \<Rightarrow> jsstring" where
  "stripSpaces s = filter (\<lambda>c. \<not> isWhiteSpace c) s"

text \<open>
  \<open>normalizeVisual\<close>: the multiplication sign U+00D7, the division sign U+00F7 and the
  minus sign U+2212 become \<open>*\<close>, \<open>/\<close> and \<open>-\<close>; the result is trimmed.
\<close>

definition replaceGlyph :: "16 word \<Rightarrow> 16 word" where
  "replaceGlyph c =
     (if c = 0xD7 then 0x2A else if c = 0xF7 then 0x2F else if c = 0x2212 then 0x2D else c)"

definition normalizeVisual :: "jsstring \<Rightarrow> jsstring" where
  "normalizeVisual s = trim (map replaceGlyph s)"

definition isDigit :: "16 word \<Rightarrow> bool" where
  "isDigit c = (0x30 \<le> c \<and> c \<le> 0x39)"

text \<open>The class \<open>[+\-*/%]\<close>.\<close>

definition isOperatorChar :: "16 word \<Rightarrow> bool" where
  "isOperatorChar c = (c = 0x2B \<or> c = 0x2D \<or> c = 0x2A \<or> c = 0x2F \<or> c = 0x25)"

text \<open>The class \<open>[0-9+\-*/().%]\<close>.\<close>

definition isAllowedChar :: "16 word \<Rightarrow> bool" where
  "isAllowedChar c = (isDigit c \<or> isOperatorChar c \<or> c = 0x28 \<or> c = 0x29 \<or> c = 0x2E)"

text \<open>\<open>/[^0-9+\-*/().%]/.test(expr)\<close>\<close>

definition hasInvalidChar :: "jsstring \<Rightarrow> bool" where
  "hasInvalidChar s = list_ex (\<lambda>c. \<not> isAllowedChar c) s"

text \<open>\<open>/([+\-*/%]{2,})/.test(expr)\<close>: two adjacent operator characters somewhere.\<close>

fun hasOperatorRun :: "jsstring \<Rightarrow> bool" where
  "hasOperatorRun (a # b # s) = ((isOperatorChar a \<and> isOperatorChar b) \<or> hasOperatorRun (b # s))"
| "hasOperatorRun s = False"

text \<open>\<open>/(\(\-)|(^\-)/.test(expr)\<close>: \<open>(-\<close> somewhere, or \<open>-\<close> at the start.\<close>

fun hasParenMinus :: "jsstring \<Rightarrow> bool" where
  "hasParenMinus (a # b # s) = ((a = 0x28 \<and> b = 0x2D) \<or> hasParenMinus (b # s))"
| "hasParenMinus s = False"

definition startsWithMinus :: "jsstring \<Rightarrow> bool" where
  "startsWithMinus s = (case s of [] \<Rightarrow> False | c # _ \<Rightarrow> c = 0x2D)"

definition hasUnaryMinus :: "jsstring \<Rightarrow> bool" where
  "hasUnaryMinus s = (hasParenMinus s \<or> startsWithMinus s)"

text \<open>\<open>/[+\-*/%]$/.test(history)\<close>\<close>

definition endsWithOperator :: "jsstring \<Rightarrow> bool" where
  "endsWithOperator s = (s \<noteq> [] \<and> isOperatorChar (last s))"

text \<open>A string with at most one decimal point.\<close>

definition atMostOneDot :: "jsstring \<Rightarrow> bool" where
  "atMostOneDot s = (count_list s 0x2E \<le> 1)"


section \<open>Numbers of the host\<close>

text \<open>
  The numbers and their conversions (\<open>String\<close>, \<open>toFixed\<close>, \<open>parseFloat\<close>,
  \<open>Number.isInteger\<close>, \<open>isFinite\<close>) belong to the JavaScript engine; they are modelled
  after the language standard.
  A Number is an IEEE 754 binary64 value. \<open>Fin s m e\<close> is \<open>(-1)\<^sup>s \<times> m \<times> 2\<^sup>e\<close>, with
  \<open>2\<^sup>5\<^sup>2 \<le> m < 2\<^sup>5\<^sup>3\<close> and \<open>-1074 \<le> e \<le> 971\<close> for a normal number, and \<open>m < 2\<^sup>5\<^sup>2\<close>,
  \<open>e = -1074\<close> for a subnormal number or a zero; so the two zeros are \<open>Fin s 0 (-1074)\<close>.
\<close>

datatype double = NaN | Infinite bool | Fin bool int int


definition zero :: "bool \<Rightarrow> double" where
  "zero s = Fin s 0 (- 1074)"

text \<open>
  \<open>m \<times> 2\<^sup>e\<close> as a fraction \<open>(p, q)\<close> of integers, \<open>q\<close> positive; an integer value is
  given over \<open>1\<close>.
\<close>

definition scale2 :: "int \<Rightarrow> int \<Rightarrow> int \<times> int" where
  "scale2 m e =
     (if 0 \<le> e then (m * 2 ^ nat e, 1)
      else if m mod 2 ^ nat (- e) = 0 then (m div 2 ^ nat (- e), 1)
      else (m, 2 ^ nat (- e)))"



text \<open>\<open>ilog2 p q\<close> is the integer \<open>E\<close> with \<open>2\<^sup>E \<le> p / q < 2\<^sup>E\<^sup>+\<^sup>1\<close>, for positive \<open>p\<close> and \<open>q\<close>.\<close>

definition ilog2 :: "int \<Rightarrow> int \<Rightarrow> int" where
  "ilog2 p q =
     (let d = bitlen p - bitlen q
      in if (if 0 \<le> d then q * 2 ^ nat d \<le> p else q \<le> p * 2 ^ nat (- d)) then d else d - 1)"

text \<open>
  \<open>rnd s p q\<close> is the double nearest to \<open>(-1)\<^sup>s \<times> p / q\<close>, ties to the even mantissa,
  infinite beyond the largest double.
\<close>

definition rnd :: "bool \<Rightarrow> int \<Rightarrow> int \<Rightarrow> double" where
  "rnd s p q =
     (if p \<le> 0 then zero s
      else
        let ex = max (ilog2 p q - 52) (- 1074);
            num = (if 0 \<le> ex then p else p * 2 ^ nat (- ex));
            den = (if 0 \<le> ex then q * 2 ^ nat ex else q);
            n = num div den;
            r = num mod den;
            m = (if 2 * r < den then n else if den < 2 * r then n + 1
                 else if even n then n else n + 1)
        in if m = 2 ^ 53 then (if 971 < ex + 1 then Infinite s else Fin s (2 ^ 52) (ex + 1))
           else if 971 < ex then Infinite s else Fin s m ex)"

definition rnd2 :: "bool \<Rightarrow> int \<Rightarrow> int \<Rightarrow> double" where
  "rnd2 s m e = (case scale2 m e of (p, q) \<Rightarrow> rnd s p q)"

fun dneg :: "double \<Rightarrow> double" where
  "dneg NaN = NaN"
| "dneg (Infinite s) = Infinite (\<not> s)"
| "dneg (Fin s m e) = Fin (\<not> s) m e"

definition signed :: "bool \<Rightarrow> int \<Rightarrow> int" where
  "signed s m = (if s then - m else m)"

fun dadd :: "double \<Rightarrow> double \<Rightarrow> double" where
  "dadd (Fin s m e) (Fin t n f) =
     (let g = min e f;
          c = signed s m * 2 ^ nat (e - g) + signed t n * 2 ^ nat (f - g)
      in if c = 0 then zero (s \<and> t) else rnd2 (c < 0) \<bar>c\<bar> g)"
| "dadd (Infinite s) (Infinite t) = (if s = t then Infinite s else NaN)"
| "dadd (Infinite s) (Fin t n f) = Infinite s"
| "dadd (Fin s m e) (Infinite t) = Infinite t"
| "dadd x y = NaN"

definition dsub :: "double \<Rightarrow> double \<Rightarrow> double" where
  "dsub x y = dadd x (dneg y)"

fun dmul :: "double \<Rightarrow> double \<Rightarrow> double" where
  "dmul (Fin s m e) (Fin t n f) =
     (if m = 0 \<or> n = 0 then zero (s \<noteq> t) else rnd2 (s \<noteq> t) (m * n) (e + f))"
| "dmul (Infinite s) (Infinite t) = Infinite (s \<noteq> t)"
| "dmul (Infinite s) (Fin t n f) = (if n = 0 then NaN else Infinite (s \<noteq> t))"
| "dmul (Fin s m e) (Infinite t) = (if m = 0 then NaN else Infinite (s \<noteq> t))"
| "dmul x y = NaN"

fun ddiv :: "double \<Rightarrow> double \<Rightarrow> double" where
  "ddiv (Fin s m e) (Fin t n f) =
     (if n = 0 then (if m = 0 then NaN else Infinite (s \<noteq> t))
      else if m = 0 then zero (s \<noteq> t)
      else if f \<le> e then rnd (s \<noteq> t) (m * 2 ^ nat (e - f)) n
      else rnd (s \<noteq> t) m (n * 2 ^ nat (f - e)))"
| "ddiv (Infinite s) (Infinite t) = NaN"
| "ddiv (Infinite s) (Fin t n f) = Infinite (s \<noteq> t)"
| "ddiv (Fin s m e) (Infinite t) = zero (s \<noteq> t)"
| "ddiv x y = NaN"

text \<open>The remainder \<open>x % y\<close> has the sign of \<open>x\<close> and is exact.\<close>

fun dmod :: "double \<Rightarrow> double \<Rightarrow> double" where
  "dmod (Fin s m e) (Fin t n f) =
     (if n = 0 then NaN
      else if m = 0 then Fin s m e
      else let g = min e f;
               r = (m * 2 ^ nat (e - g)) mod (n * 2 ^ nat (f - g))
           in if r = 0 then zero s else rnd2 s r g)"
| "dmod (Fin s m e) (Infinite t) = Fin s m e"
| "dmod x y = NaN"

definition isFiniteNum :: "double \<Rightarrow> bool" where
  "isFiniteNum x = (case x of Fin s m e \<Rightarrow> True | _ \<Rightarrow> False)"

text \<open>\<open>Number.isInteger\<close>\<close>

definition isInteger :: "double \<Rightarrow> bool" where
  "isInteger x = (case x of Fin s m e \<Rightarrow> 0 \<le> e \<or> m mod 2 ^ nat (- e) = 0 | _ \<Rightarrow> False)"

definition numberOfInt :: "int \<Rightarrow> double" where
  "numberOfInt n = rnd (n < 0) \<bar>n\<bar> 1"

text \<open>\<open>rndDec s d ex\<close> is the double nearest to \<open>(-1)\<^sup>s \<times> d \<times> 10\<^sup>e\<^sup>x\<close>.\<close>

definition rndDec :: "bool \<Rightarrow> int \<Rightarrow> int \<Rightarrow> double" where
  "rndDec s d ex = (if 0 \<le> ex then rnd s (d * 10 ^ nat ex) 1 else rnd s d (10 ^ nat (- ex)))"

subsection \<open>Decimal digits\<close>

definition digitVal :: "16 word \<Rightarrow> int" where
  "digitVal c = uint c - 48"

definition digitChar :: "int \<Rightarrow> 16 word" where
  "digitChar d = word_of_int (48 + d)"

definition digitsVal :: "jsstring \<Rightarrow> int" where
  "digitsVal ds = foldl (\<lambda>a c. 10 * a + digitVal c) 0 ds"

text \<open>The number of decimal digits of a positive integer.\<close>

function declen :: "int \<Rightarrow> int" where
  "declen x = (if 0 < x then declen (x div 10) + 1 else 0)"
  by pat_completeness auto
termination
  by (relation "measure nat") auto

declare declen.simps [simp del]

function digitsOf :: "int \<Rightarrow> jsstring" where
  "digitsOf n = (if n < 10 then [digitChar n] else digitsOf (n div 10) @ [digitChar (n mod 10)])"
  by pat_completeness auto
termination
  by (relation "measure nat") auto

declare digitsOf.simps [simp del]

function stripZeros :: "int \<Rightarrow> int" where
  "stripZeros n = (if 0 < n \<and> n mod 10 = 0 then stripZeros (n div 10) else n)"
  by pat_completeness auto
termination
  by (relation "measure nat") auto

declare stripZeros.simps [simp del]

subsection \<open>Number to string\<close>

text \<open>\<open>decExp p q\<close> is the integer \<open>n\<close> with \<open>10\<^sup>n\<^sup>-\<^sup>1 \<le> p / q < 10\<^sup>n\<close>, for positive \<open>p\<close> and \<open>q\<close>.\<close>

definition decExp :: "int \<Rightarrow> int \<Rightarrow> int" where
  "decExp p q =
     (let d = declen p - declen q
      in if (if 0 \<le> d then p < q * 10 ^ nat d else p * 10 ^ nat (- d) < q) then d else d + 1)"

text \<open>\<open>scaled p q ex\<close> is \<open>p / q / 10\<^sup>e\<^sup>x\<close> rounded down.\<close>

definition scaled :: "int \<Rightarrow> int \<Rightarrow> int \<Rightarrow> int" where
  "scaled p q ex = (if 0 \<le> ex then p div (q * 10 ^ nat ex) else (p * 10 ^ nat (- ex)) div q)"

text \<open>
  Whether \<open>lo \<times> 10\<^sup>e\<^sup>x\<close> is at least as near to \<open>p / q\<close> as \<open>(lo + 1) \<times> 10\<^sup>e\<^sup>x\<close> is, where
  \<open>lo = scaled p q ex\<close>; of two equally near, the even one is taken.
\<close>

definition lowerIsNearer :: "int \<Rightarrow> int \<Rightarrow> int \<Rightarrow> int \<Rightarrow> bool" where
  "lowerIsNearer p q ex lo =
     (let r = (if 0 \<le> ex then p - lo * (q * 10 ^ nat ex) else p * 10 ^ nat (- ex) - lo * q);
          u = (if 0 \<le> ex then q * 10 ^ nat ex else q)
      in 2 * r < u \<or> (2 * r = u \<and> even lo))"

text \<open>
  The digits of \<open>Number::toString\<close>: the least number \<open>k\<close> of digits for which a decimal
  \<open>s \<times> 10\<^sup>e\<^sup>x\<close> with a \<open>k\<close>-digit \<open>s\<close> rounds to \<open>x\<close>, and of those \<open>s\<close> the nearest to \<open>x\<close>.
  \<open>x\<close> is positive with value \<open>p / q\<close>, and \<open>n = decExp p q\<close>. The first argument bounds
  the number of digits tried.
\<close>

fun shortest :: "nat \<Rightarrow> double \<Rightarrow> int \<Rightarrow> int \<Rightarrow> int \<Rightarrow> int \<Rightarrow> int \<times> int" where
  "shortest 0 x p q n k = (scaled p q (n - k), n - k)"
| "shortest (Suc fuel) x p q n k =
     (let ex = n - k;
          lo = scaled p q ex;
          okLo = (rndDec False lo ex = x);
          okHi = (rndDec False (lo + 1) ex = x)
      in if okLo \<and> (\<not> okHi \<or> lowerIsNearer p q ex lo) then (lo, ex)
         else if okHi then (lo + 1, ex)
         else shortest fuel x p q n (k + 1))"

text \<open>
  The digit string of a positive double and the position \<open>n\<close> of its decimal point:
  the value printed is \<open>0.d\<^sub>1d\<^sub>2\<dots>d\<^sub>k \<times> 10\<^sup>n\<close>.
\<close>

definition numberDigits :: "int \<Rightarrow> int \<Rightarrow> jsstring \<times> int" where
  "numberDigits m e =
     (case scale2 m e of (p, q) \<Rightarrow>
        (case shortest 800 (Fin False m e) p q (decExp p q) 1 of (s, ex) \<Rightarrow>
           (digitsOf (stripZeros s), ex + declen s)))"

definition renderNumber :: "jsstring \<Rightarrow> int \<Rightarrow> jsstring" where
  "renderNumber ds n =
     (let k = int (length ds)
      in if k \<le> n \<and> n \<le> 21 then ds @ replicate (nat (n - k)) 0x30
         else if 0 < n \<and> n \<le> 21 then take (nat n) ds @ [0x2E] @ drop (nat n) ds
         else if - 6 < n \<and> n \<le> 0 then [0x30, 0x2E] @ replicate (nat (- n)) 0x30 @ ds
         else
           (let es = [0x65, if n - 1 < 0 then 0x2D else 0x2B] @ digitsOf \<bar>n - 1\<bar>
            in if k = 1 then ds @ es else take 1 ds @ [0x2E] @ drop 1 ds @ es))"

text \<open>\<open>String(x)\<close> and \<open>x.toString()\<close> for a Number \<open>x\<close>.\<close>

definition numberToString :: "double \<Rightarrow> jsstring" where
  "numberToString x =
     (case x of
        NaN \<Rightarrow> js ''NaN''
      | Infinite s \<Rightarrow> (if s then js ''-Infinity'' else js ''Infinity'')
      | Fin s m e \<Rightarrow>
          (if m \<le> 0 then js ''0''
           else (if s then [0x2D] else []) @
                (case numberDigits m e of (ds, n) \<Rightarrow> renderNumber ds n)))"

text \<open>\<open>x.toFixed(f)\<close>\<close>

definition toFixed :: "double \<Rightarrow> nat \<Rightarrow> jsstring" where
  "toFixed x f =
     (case x of
        Fin s m e \<Rightarrow>
          (case scale2 m e of (p, q) \<Rightarrow>
             if 10 ^ 21 * q \<le> p then numberToString x
             else
               let n = (2 * p * 10 ^ f + q) div (2 * q);
                   ds = digitsOf n;
                   padded = replicate (f + 1 - length ds) 0x30 @ ds;
                   k = length padded
               in (if s \<and> 0 < m then [0x2D] else []) @
                  (if f = 0 then padded else take (k - f) padded @ [0x2E] @ drop (k - f) padded))
      | _ \<Rightarrow> numberToString x)"

text \<open>
  \<open>parseFloat(str)\<close>: leading white space is skipped, the longest prefix that is a
  decimal literal (sign, \<open>Infinity\<close> or digits with a fraction and an exponent) is read,
  and its value is rounded; \<open>NaN\<close> when there is no such prefix.
\<close>

definition exponentPart :: "jsstring \<Rightarrow> int" where
  "exponentPart r =
     (case r of
        c # r' \<Rightarrow>
          (if c = 0x65 \<or> c = 0x45 then
             (let neg = (r' \<noteq> [] \<and> hd r' = 0x2D);
                  u = (if r' \<noteq> [] \<and> (hd r' = 0x2D \<or> hd r' = 0x2B) then tl r' else r');
                  ds = takeWhile isDigit u
              in if ds = [] then 0 else if neg then - digitsVal ds else digitsVal ds)
           else 0)
      | [] \<Rightarrow> 0)"

definition parseFloat :: "jsstring \<Rightarrow> double" where
  "parseFloat str =
     (let t = dropWhile isWhiteSpace str;
          neg = (t \<noteq> [] \<and> hd t = 0x2D);
          u = (if t \<noteq> [] \<and> (hd t = 0x2D \<or> hd t = 0x2B) then tl t else t)
      in if take 8 u = js ''Infinity'' then Infinite neg
         else
           let ip = takeWhile isDigit u;
               r1 = dropWhile isDigit u;
               dot = (r1 \<noteq> [] \<and> hd r1 = 0x2E);
               fp = (if dot then takeWhile isDigit (tl r1) else []);
               r2 = (if dot then dropWhile isDigit (tl r1) else r1)
           in if ip = [] \<and> fp = [] then NaN
              else rndDec neg (digitsVal (ip @ fp)) (exponentPart r2 - int (length fp)))"


section \<open>The host evaluator\<close>

text \<open>
  \<open>safeEval\<close> hands the checked text to \<open>Function('"use strict"; return (' + expr + ')')()\<close>.
  What comes back is a Number, or a value that is not a number (a regular expression
  object or a string built from one: both are not finite and give \<open>NaN\<close> in arithmetic),
  or an exception. The calculator is modelled over any such host.
\<close>

datatype jsval = Num double | NonNum

datatype outcome = Threw | Returned jsval

type_synonym host = "jsstring \<Rightarrow> outcome"

definition toNumber :: "jsval \<Rightarrow> double" where
  "toNumber v = (case v of Num x \<Rightarrow> x | NonNum \<Rightarrow> NaN)"

text \<open>
  The host of the script is the JavaScript engine, reached through \<open>Function\<close>; it is not
  code of the repository. Its arithmetic is modelled as far as the examples below need
  it: the text \<open>(expr)\<close> is read as a strict-mode JavaScript expression over decimal
  literals, unary and binary \<open>+ -\<close>, \<open>* / %\<close> and parentheses (\<open>* / %\<close> bind tighter than
  \<open>+ -\<close>, operators of one level associate to the left), in binary64 arithmetic.
  \<open>Fail\<close> is an exception: a syntax error (also \<open>++\<close> and \<open>--\<close>, which have no operand they
  could update, and a literal with a leading zero) or the call of a number. \<open>Beyond\<close>
  marks text outside the model: the exponentiation operator, a regular expression
  literal, a comment, or more nesting than the fuel allows.
\<close>

datatype 'a parsing = Fail | Beyond | Parsed 'a jsstring

text \<open>A decimal literal at the head of the text.\<close>

definition numericLiteral :: "jsstring \<Rightarrow> double parsing" where
  "numericLiteral s =
     (let ip = takeWhile isDigit s;
          r1 = dropWhile isDigit s;
          dot = (r1 \<noteq> [] \<and> hd r1 = 0x2E);
          fp = (if dot then takeWhile isDigit (tl r1) else []);
          r2 = (if dot then dropWhile isDigit (tl r1) else r1)
      in if ip = [] \<and> fp = [] then Fail
         else if 1 < length ip \<and> hd ip = 0x30 then Fail
         else Parsed (rndDec False (digitsVal (ip @ fp)) (- int (length fp))) r2)"

definition andThen :: "'a parsing \<Rightarrow> ('a \<Rightarrow> jsstring \<Rightarrow> 'b parsing) \<Rightarrow> 'b parsing" where
  "andThen p f = (case p of Parsed v r \<Rightarrow> f v r | Fail \<Rightarrow> Fail | Beyond \<Rightarrow> Beyond)"

text \<open>
  What is being read: a sum, the rest of a sum whose value so far is known, a product,
  the rest of a product, an operand with its signs, an operand.
\<close>

datatype goal = Additive | AddLoop double | Multiplicative | MulLoop double | Unary | Primary

primrec parse :: "nat \<Rightarrow> goal \<Rightarrow> jsstring \<Rightarrow> double parsing" where
  "parse 0 g s = Beyond"
| "parse (Suc n) g s =
     (case g of
        Additive \<Rightarrow> andThen (parse n Multiplicative s) (\<lambda>v r. parse n (AddLoop v) r)
      | AddLoop v \<Rightarrow>
          (case s of
             c # r \<Rightarrow>
               (if c = 0x2B \<or> c = 0x2D then
                  (if r \<noteq> [] \<and> hd r = c then Fail
                   else andThen (parse n Multiplicative r)
                          (\<lambda>w r'. parse n (AddLoop (if c = 0x2B then dadd v w else dsub v w)) r'))
                else Parsed v s)
           | [] \<Rightarrow> Parsed v s)
      | Multiplicative \<Rightarrow> andThen (parse n Unary s) (\<lambda>v r. parse n (MulLoop v) r)
      | MulLoop v \<Rightarrow>
          (case s of
             c # r \<Rightarrow>
               (if c = 0x2A \<or> c = 0x2F \<or> c = 0x25 then
                  (if c = 0x2A \<and> r \<noteq> [] \<and> hd r = 0x2A then Beyond
                   else if c = 0x2F \<and> r \<noteq> [] \<and> (hd r = 0x2A \<or> hd r = 0x2F) then Beyond
                   else andThen (parse n Unary r)
                          (\<lambda>w r'. parse n (MulLoop (if c = 0x2A then dmul v w
                                                    else if c = 0x2F then ddiv v w
                                                    else dmod v w)) r'))
                else Parsed v s)
           | [] \<Rightarrow> Parsed v s)
      | Unary \<Rightarrow>
          (case s of
             c # r \<Rightarrow>
               (if c = 0x2B \<or> c = 0x2D then
                  (if r \<noteq> [] \<and> hd r = c then Fail
                   else andThen (parse n Unary r)
                          (\<lambda>v r'. Parsed (if c = 0x2D then dneg v else v) r'))
                else parse n Primary s)
           | [] \<Rightarrow> Fail)
      | Primary \<Rightarrow>
          (case s of
             c # r \<Rightarrow>
               andThen
                 (if c = 0x28 then
                    andThen (parse n Additive r)
                      (\<lambda>v r'. if r' \<noteq> [] \<and> hd r' = 0x29 then Parsed v (tl r') else Fail)
                  else if isDigit c \<or> c = 0x2E then numericLiteral s
                  else if c = 0x2F then Beyond
                  else Fail)
                 (\<lambda>v r'. if r' \<noteq> [] \<and> (hd r' = 0x28 \<or> hd r' = 0x2E \<or> isDigit (hd r'))
                          then Fail else Parsed v r')
           | [] \<Rightarrow> Fail))"

text \<open>
  The text evaluated is \<open>(expr)\<close>. On text outside the model \<open>hostEval\<close> answers with an
  exception, which the real engine need not do.
\<close>

definition evalArith :: "jsstring \<Rightarrow> outcome option" where
  "evalArith expr =
     (let src = [0x28] @ expr @ [0x29]
      in case parse (4 * length src + 4) Additive src of
           Parsed v r \<Rightarrow> Some (if r = [] then Returned (Num v) else Threw)
         | Fail \<Rightarrow> Some Threw
         | Beyond \<Rightarrow> None)"

definition hostEval :: host where
  "hostEval expr = (case evalArith expr of Some r \<Rightarrow> r | None \<Rightarrow> Threw)"

section \<open>The calculator\<close>

datatype error =
    InvalidCharacters
  | MalformedExpression
  | ExpressionTooLong
  | ResultNotFinite
  | HostError

text \<open>\<open>safeEval\<close>: the checks in the order of the source, then the host.\<close>

definition safeEval :: "host \<Rightarrow> jsstring \<Rightarrow> error + jsval" where
  "safeEval hst expr0 =
     (let expr = stripSpaces (normalizeVisual expr0)
      in if hasInvalidChar expr then Inl InvalidCharacters
         else if hasOperatorRun expr \<and> \<not> hasUnaryMinus expr then Inl MalformedExpression
         else if 180 < length expr then Inl ExpressionTooLong
         else (case hst expr of Threw \<Rightarrow> Inl HostError | Returned v \<Rightarrow> Inr v))"

text \<open>
  The state: the three variables of the script, the text of the two display elements,
  and the number of \<open>showError\<close> timeouts that have not fired yet. Animations and the
  console are left out.
\<close>

record calc =
  current :: jsstring
  history :: jsstring
  consumedResult :: bool
  currentText :: jsstring
  historyText :: jsstring
  errorTimers :: nat

definition initial :: calc where
  "initial = \<lparr>current = js ''0'', history = [], consumedResult = False,
              currentText = js ''0'', historyText = [], errorTimers = 0\<rparr>"

definition refreshDisplay :: "calc \<Rightarrow> calc" where
  "refreshDisplay s = s\<lparr>currentText := current s, historyText := history s\<rparr>"

text \<open>\<open>showError\<close> shows \<open>Err\<close> and schedules \<open>errorTimeout\<close>, which runs 700 ms later.\<close>

definition showError :: "calc \<Rightarrow> calc" where
  "showError s = s\<lparr>currentText := js ''Err'', errorTimers := Suc (errorTimers s)\<rparr>"

definition errorTimeout :: "calc \<Rightarrow> calc" where
  "errorTimeout s = refreshDisplay (s\<lparr>current := js ''0'', errorTimers := errorTimers s - 1\<rparr>)"

definition appendDigit :: "jsstring \<Rightarrow> calc \<Rightarrow> calc" where
  "appendDigit d s =
     (if consumedResult s then
        refreshDisplay (s\<lparr>current := (if d = js ''.'' then js ''0.'' else d),
                          consumedResult := False\<rparr>)
      else if current s = js ''0'' \<and> d \<noteq> js ''.'' then refreshDisplay (s\<lparr>current := d\<rparr>)
      else if d = js ''.'' \<and> 0x2E \<in> set (current s) then s
      else refreshDisplay (s\<lparr>current := current s @ d\<rparr>))"

definition applyOperator :: "jsstring \<Rightarrow> calc \<Rightarrow> calc" where
  "applyOperator op s =
     (if consumedResult s then
        refreshDisplay (s\<lparr>history := current s @ op, consumedResult := False,
                          current := js ''0''\<rparr>)
      else if endsWithOperator (history s) then
        refreshDisplay (s\<lparr>history := butlast (history s) @ op, current := js ''0''\<rparr>)
      else
        refreshDisplay (s\<lparr>history := history s @ current s @ op, current := js ''0''\<rparr>))"

definition doPercent :: "host \<Rightarrow> calc \<Rightarrow> calc" where
  "doPercent hst s =
     (case safeEval hst (current s) of
        Inr v \<Rightarrow>
          refreshDisplay (s\<lparr>current := numberToString (ddiv (toNumber v) (numberOfInt 100))\<rparr>)
      | Inl e \<Rightarrow> showError s)"

definition backspace :: "calc \<Rightarrow> calc" where
  "backspace s =
     (if consumedResult s then
        refreshDisplay (s\<lparr>current := js ''0'', consumedResult := False\<rparr>)
      else
        refreshDisplay
          (s\<lparr>current := (if length (current s) \<le> 1 then js ''0'' else butlast (current s))\<rparr>))"

definition clearAll :: "calc \<Rightarrow> calc" where
  "clearAll s =
     refreshDisplay (s\<lparr>current := js ''0'', history := [], consumedResult := False\<rparr>)"

text \<open>The text shown for a finite result.\<close>

definition formatResult :: "double \<Rightarrow> jsstring" where
  "formatResult x =
     (if isInteger x then numberToString x
      else numberToString (parseFloat (toFixed x 10)))"

text \<open>
  The \<open>try\<close> block of \<open>evaluateExpression\<close>: \<open>Inl\<close> is the exception caught, \<open>Inr\<close> the
  state it ends in (unchanged when the expression is empty).
\<close>

definition tryEvaluate :: "host \<Rightarrow> calc \<Rightarrow> error + calc" where
  "tryEvaluate hst s =
     (let expr = normalizeVisual (history s @ current s)
      in if expr = [] then Inr s
         else (case safeEval hst expr of
                 Inl e \<Rightarrow> Inl e
               | Inr v \<Rightarrow>
                   if \<not> isFiniteNum (toNumber v) then Inl ResultNotFinite
                   else Inr (refreshDisplay
                               (s\<lparr>history := expr @ js '' ='',
                                  current := formatResult (toNumber v),
                                  consumedResult := True\<rparr>))))"

definition evaluateExpression :: "host \<Rightarrow> calc \<Rightarrow> calc" where
  "evaluateExpression hst s =
     (case tryEvaluate hst s of Inr s' \<Rightarrow> s' | Inl e \<Rightarrow> showError s)"

text \<open>The actions of the user, and the timer.\<close>

datatype event =
    Digit jsstring
  | Operator jsstring
  | Percent
  | Back
  | Clear
  | Equals
  | Timeout

text \<open>What the digit keys and buttons give to \<open>appendDigit\<close>: one of \<open>0\<close> to \<open>9\<close>, or \<open>.\<close>\<close>

definition isDigitInput :: "jsstring \<Rightarrow> bool" where
  "isDigitInput d = (case d of [c] \<Rightarrow> isDigit c \<or> c = 0x2E | _ \<Rightarrow> False)"

text \<open>What the operator keys give to \<open>applyOperator\<close>: one of \<open>+ - * /\<close>.\<close>

definition isOperatorInput :: "jsstring \<Rightarrow> bool" where
  "isOperatorInput op = (case op of [c] \<Rightarrow> c = 0x2B \<or> c = 0x2D \<or> c = 0x2A \<or> c = 0x2F | _ \<Rightarrow> False)"

text \<open>
  The events the handlers can produce: a digit input, or one operator character (the
  fallback branch of the click handler also passes \<open>%\<close>).
\<close>

definition wellFormed :: "event \<Rightarrow> bool" where
  "wellFormed ev =
     (case ev of
        Digit d \<Rightarrow> isDigitInput d
      | Operator op \<Rightarrow> (case op of [c] \<Rightarrow> isOperatorChar c | _ \<Rightarrow> False)
      | _ \<Rightarrow> True)"

definition step :: "host \<Rightarrow> calc \<Rightarrow> event \<Rightarrow> calc" where
  "step hst s ev =
     (case ev of
        Digit d \<Rightarrow> appendDigit d s
      | Operator op \<Rightarrow> applyOperator op s
      | Percent \<Rightarrow> doPercent hst s
      | Back \<Rightarrow> backspace s
      | Clear \<Rightarrow> clearAll s
      | Equals \<Rightarrow> evaluateExpression hst s
      | Timeout \<Rightarrow> (if 0 < errorTimers s then errorTimeout s else s))"

definition run :: "host \<Rightarrow> event list \<Rightarrow> calc" where
  "run hst evs = foldl (step hst) initial evs"

section \<open>Properties of the operator and clear transitions\<close>

text \<open>
  Claim C8. Whatever the state before, \<open>clearAll\<close> leaves \<open>current = "0"\<close>, an empty
  \<open>history\<close> and \<open>consumedResult = false\<close>, and the display shows them; only the pending
  error timeouts are untouched.
\<close>

theorem clearAll_resets:
  "clearAll s = \<lparr>current = js ''0'', history = [], consumedResult = False,
                 currentText = js ''0'', historyText = [], errorTimers = errorTimers s\<rparr>"
  by (simp add: clearAll_def refreshDisplay_def)

theorem clearAll_resets_witness:
  "clearAll \<lparr>current = js ''12.5'', history = js ''3*'', consumedResult = True,
            currentText = js ''Err'', historyText = js ''3*'', errorTimers = 1\<rparr>
   = \<lparr>current = js ''0'', history = [], consumedResult = False,
      currentText = js ''0'', historyText = [], errorTimers = 1\<rparr>"
  using clearAll_resets [of "\<lparr>current = js ''12.5'', history = js ''3*'', consumedResult = True,
            currentText = js ''Err'', historyText = js ''3*'', errorTimers = 1\<rparr>"]
  by simp

text \<open>
  Claim C10. When no result has just been shown and \<open>history\<close> ends with an operator
  character, \<open>applyOperator\<close> replaces that operator and also resets \<open>current\<close> to \<open>"0"\<close>:
  the digits typed since the previous operator are lost.
\<close>

theorem applyOperator_replace_resets_current:
  "\<not> consumedResult s \<Longrightarrow> endsWithOperator (history s) \<Longrightarrow>
     current (applyOperator op s) = js ''0''
     \<and> history (applyOperator op s) = butlast (history s) @ op"
  by (simp add: applyOperator_def refreshDisplay_def)

theorem applyOperator_replace_resets_current_witness:
  "\<not> consumedResult \<lparr>current = js ''5'', history = js ''2+'', consumedResult = False,
        currentText = js ''5'', historyText = js ''2+'', errorTimers = 0\<rparr>
   \<and> endsWithOperator (js ''2+'')
   \<and> current (applyOperator (js ''+'')
        \<lparr>current = js ''5'', history = js ''2+'', consumedResult = False,
         currentText = js ''5'', historyText = js ''2+'', errorTimers = 0\<rparr>) = js ''0''
   \<and> history (applyOperator (js ''+'')
        \<lparr>current = js ''5'', history = js ''2+'', consumedResult = False,
         currentText = js ''5'', historyText = js ''2+'', errorTimers = 0\<rparr>) = js ''2+''"
proof -
  let ?s = "\<lparr>current = js ''5'', history = js ''2+'', consumedResult = False,
        currentText = js ''5'', historyText = js ''2+'', errorTimers = 0\<rparr>"
  have h1: "\<not> consumedResult ?s" by simp
  have h2: "endsWithOperator (js ''2+'')" by code_simp
  have h3: "endsWithOperator (history ?s)" using h2 by simp
  have e: "butlast (js ''2+'') @ js ''+'' = js ''2+''" by code_simp
  show ?thesis
    using applyOperator_replace_resets_current [OF h1 h3, of "js ''+''"] h1 h2 e by simp
qed

lemma isOperatorInput_ends: "isOperatorInput op \<Longrightarrow> endsWithOperator (h @ op)"
  by (auto simp: isOperatorInput_def endsWithOperator_def isOperatorChar_def split: list.splits)

lemma isOperatorInput_butlast: "isOperatorInput op \<Longrightarrow> butlast (h @ op) = h"
  by (auto simp: isOperatorInput_def split: list.splits)

text \<open>
  Claim C4. For operators \<open>op1\<close> and \<open>op2\<close> among \<open>+ - * /\<close> and every state,
  \<open>applyOperator op1\<close> followed by \<open>applyOperator op2\<close> gives the state that
  \<open>applyOperator op2\<close> alone gives. After \<open>applyOperator op1\<close> the history ends with
  \<open>op1\<close>; \<open>applyOperator op2\<close> then replaces this trailing operator: the history
  becomes the same text with \<open>op2\<close> in the place of \<open>op1\<close>, \<open>current\<close> is \<open>0\<close> and
  \<open>consumedResult\<close> is false.
\<close>

theorem applyOperator_last_wins:
  "isOperatorInput op1 \<Longrightarrow> isOperatorInput op2 \<Longrightarrow>
     applyOperator op2 (applyOperator op1 s) = applyOperator op2 s
     \<and> history (applyOperator op1 s)
         = (if consumedResult s then current s
            else if endsWithOperator (history s) then butlast (history s)
            else history s @ current s) @ op1
     \<and> endsWithOperator (history (applyOperator op1 s))
     \<and> history (applyOperator op2 (applyOperator op1 s))
         = butlast (history (applyOperator op1 s)) @ op2
     \<and> history (applyOperator op2 (applyOperator op1 s))
         = (if consumedResult s then current s
            else if endsWithOperator (history s) then butlast (history s)
            else history s @ current s) @ op2
     \<and> current (applyOperator op2 (applyOperator op1 s)) = js ''0''
     \<and> \<not> consumedResult (applyOperator op2 (applyOperator op1 s))"
  using isOperatorInput_ends [of op1 "current s"]
    isOperatorInput_ends [of op1 "butlast (history s)"]
    isOperatorInput_ends [of op1 "history s @ current s"]
    isOperatorInput_butlast [of op1 "current s"]
    isOperatorInput_butlast [of op1 "butlast (history s)"]
    isOperatorInput_butlast [of op1 "history s @ current s"]
  by (simp add: applyOperator_def refreshDisplay_def)

theorem applyOperator_last_wins_witness:
  "isOperatorInput (js ''+'') \<and> isOperatorInput (js ''*'')
   \<and> applyOperator (js ''*'') (applyOperator (js ''+'')
        \<lparr>current = js ''5'', history = js ''2-'', consumedResult = False,
         currentText = js ''5'', historyText = js ''2-'', errorTimers = 0\<rparr>)
     = applyOperator (js ''*'')
        \<lparr>current = js ''5'', history = js ''2-'', consumedResult = False,
         currentText = js ''5'', historyText = js ''2-'', errorTimers = 0\<rparr>
   \<and> history (applyOperator (js ''+'')
        \<lparr>current = js ''5'', history = js ''2-'', consumedResult = False,
         currentText = js ''5'', historyText = js ''2-'', errorTimers = 0\<rparr>) = js ''2+''
   \<and> applyOperator (js ''*'') (applyOperator (js ''+'')
        \<lparr>current = js ''5'', history = js ''2-'', consumedResult = False,
         currentText = js ''5'', historyText = js ''2-'', errorTimers = 0\<rparr>)
     = \<lparr>current = js ''0'', history = js ''2*'', consumedResult = False,
        currentText = js ''0'', historyText = js ''2*'', errorTimers = 0\<rparr>"
proof -
  let ?s = "\<lparr>current = js ''5'', history = js ''2-'', consumedResult = False,
         currentText = js ''5'', historyText = js ''2-'', errorTimers = 0\<rparr>"
  have h1: "isOperatorInput (js ''+'')" by code_simp
  have h2: "isOperatorInput (js ''*'')" by code_simp
  have e1: "history (applyOperator (js ''+'') ?s) = js ''2+''" by code_simp
  have e2: "applyOperator (js ''*'') ?s
     = \<lparr>current = js ''0'', history = js ''2*'', consumedResult = False,
        currentText = js ''0'', historyText = js ''2*'', errorTimers = 0\<rparr>" by code_simp
  have t: "applyOperator (js ''*'') (applyOperator (js ''+'') ?s) = applyOperator (js ''*'') ?s"
    using applyOperator_last_wins [OF h1 h2, of ?s] by blast
  show ?thesis
    using t h1 h2 e1 e2 by simp
qed

section \<open>The modelled part of the host\<close>

text \<open>
  \<open>hostEval\<close> agrees with \<open>evalArith\<close> wherever the latter gives an outcome, and every
  expression that reaches the host in an example below lies there: \<open>evalArith\<close> gives an
  outcome for it.
\<close>

lemma hostEval_evalArith: "evalArith expr = Some r \<Longrightarrow> hostEval expr = r"
  by (simp add: hostEval_def)

lemma evalArith_examples:
  "evalArith (js ''2+3'') = Some (Returned (Num (numberOfInt 5)))
   \<and> evalArith (js ''(-1)+-2'') = Some (Returned (Num (numberOfInt (- 3))))
   \<and> evalArith (js ''5/2'') = Some (Returned (Num (ddiv (numberOfInt 5) (numberOfInt 2))))
   \<and> evalArith (js ''5/0'') = Some (Returned (Num (Infinite False)))
   \<and> evalArith (js ''50'') = Some (Returned (Num (numberOfInt 50)))
   \<and> evalArith (js ''10/3'') = Some (Returned (Num (ddiv (numberOfInt 10) (numberOfInt 3))))
   \<and> evalArith (js ''1500000000000000000000'')
       = Some (Returned (Num (numberOfInt 1500000000000000000000)))
   \<and> evalArith (js ''1/10000000'')
       = Some (Returned (Num (ddiv (numberOfInt 1) (numberOfInt 10000000))))"
  by code_simp

section \<open>Properties of the evaluator's checks\<close>

text \<open>
  Claim C1, as the code has it. \<open>safeEval\<close> fails with \<open>Malformed expression\<close> exactly when
  the normalised text without white space has only allowed characters, has two adjacent
  operator characters, has no \<open>(-\<close> anywhere and does not start with \<open>-\<close>. So one \<open>(-\<close>
  anywhere, or a leading \<open>-\<close>, lets every run of operators through this check.
\<close>

theorem safeEval_malformed_iff:
  "safeEval hst e = Inl MalformedExpression \<longleftrightarrow>
     (\<not> hasInvalidChar (stripSpaces (normalizeVisual e))
      \<and> hasOperatorRun (stripSpaces (normalizeVisual e))
      \<and> \<not> hasParenMinus (stripSpaces (normalizeVisual e))
      \<and> \<not> startsWithMinus (stripSpaces (normalizeVisual e)))"
  by (auto simp: safeEval_def Let_def hasUnaryMinus_def split: outcome.splits)

theorem safeEval_malformed_iff_witness:
  "\<not> hasInvalidChar (stripSpaces (normalizeVisual (js ''2++3'')))
   \<and> hasOperatorRun (stripSpaces (normalizeVisual (js ''2++3'')))
   \<and> \<not> hasParenMinus (stripSpaces (normalizeVisual (js ''2++3'')))
   \<and> \<not> startsWithMinus (stripSpaces (normalizeVisual (js ''2++3'')))
   \<and> safeEval hostEval (js ''2++3'') = Inl MalformedExpression"
proof -
  have h: "\<not> hasInvalidChar (stripSpaces (normalizeVisual (js ''2++3'')))
     \<and> hasOperatorRun (stripSpaces (normalizeVisual (js ''2++3'')))
     \<and> \<not> hasParenMinus (stripSpaces (normalizeVisual (js ''2++3'')))
     \<and> \<not> startsWithMinus (stripSpaces (normalizeVisual (js ''2++3'')))"
    by code_simp
  show ?thesis
    using safeEval_malformed_iff [of hostEval "js ''2++3''"] h by blast
qed

text \<open>
  The claim as stated fails: \<open>(-1)+-2\<close> has the run \<open>+-\<close>, which is not \<open>(-\<close>, and does not
  start with \<open>-\<close>, yet it is evaluated, to \<open>-3\<close>.
\<close>

theorem safeEval_operator_run_counterexample:
  "hasOperatorRun (stripSpaces (js ''(-1)+-2''))
   \<and> \<not> startsWithMinus (stripSpaces (js ''(-1)+-2''))
   \<and> safeEval hostEval (js ''(-1)+-2'') = Inr (Num (numberOfInt (- 3)))"
  by code_simp

lemma isWhiteSpace_replaceGlyph: "isWhiteSpace (replaceGlyph c) = isWhiteSpace c"
  by (simp add: isWhiteSpace_def replaceGlyph_def)

lemma stripSpaces_dropWhile: "stripSpaces (dropWhile isWhiteSpace s) = stripSpaces s"
  by (induction s) (simp_all add: stripSpaces_def)

lemma stripSpaces_rev: "stripSpaces (rev s) = rev (stripSpaces s)"
  by (simp add: stripSpaces_def rev_filter)

lemma stripSpaces_trim: "stripSpaces (trim s) = stripSpaces s"
  by (simp add: trim_def stripSpaces_rev stripSpaces_dropWhile)

lemma length_stripSpaces_normalizeVisual:
  "length (stripSpaces (normalizeVisual e)) = length (stripSpaces e)"
proof -
  have "stripSpaces (map replaceGlyph e) = map replaceGlyph (stripSpaces e)"
    by (simp add: stripSpaces_def filter_map comp_def isWhiteSpace_replaceGlyph)
  then show ?thesis
    by (simp add: normalizeVisual_def stripSpaces_trim)
qed

text \<open>
  Claim C9. When the text without white space has more than 180 characters and passes
  the character check and the operator-run check, \<open>safeEval\<close> fails with
  \<open>Expression too long\<close>, whatever the host would have answered: the host is not asked.
\<close>

theorem safeEval_too_long:
  assumes "180 < length (stripSpaces e)"
    and "\<not> hasInvalidChar (stripSpaces (normalizeVisual e))"
    and "\<not> (hasOperatorRun (stripSpaces (normalizeVisual e))
            \<and> \<not> hasUnaryMinus (stripSpaces (normalizeVisual e)))"
  shows "safeEval hst e = Inl ExpressionTooLong"
  using assms length_stripSpaces_normalizeVisual [of e]
  by (simp add: safeEval_def Let_def)

theorem safeEval_too_long_witness:
  "180 < length (stripSpaces (replicate 181 0x31))
   \<and> \<not> hasInvalidChar (stripSpaces (normalizeVisual (replicate 181 0x31)))
   \<and> \<not> (hasOperatorRun (stripSpaces (normalizeVisual (replicate 181 0x31)))
          \<and> \<not> hasUnaryMinus (stripSpaces (normalizeVisual (replicate 181 0x31))))
   \<and> safeEval hostEval (replicate 181 0x31) = Inl ExpressionTooLong"
proof -
  have h1: "180 < length (stripSpaces (replicate 181 0x31))" by code_simp
  have h2: "\<not> hasInvalidChar (stripSpaces (normalizeVisual (replicate 181 0x31)))"
    by code_simp
  have h3: "\<not> (hasOperatorRun (stripSpaces (normalizeVisual (replicate 181 0x31)))
          \<and> \<not> hasUnaryMinus (stripSpaces (normalizeVisual (replicate 181 0x31))))"
    by code_simp
  show ?thesis
    using safeEval_too_long [OF h1 h2 h3, of hostEval] h1 h2 h3 by blast
qed

section \<open>Decimal points of \<open>current\<close>\<close>

lemma digitChar_isDigit: "0 \<le> d \<Longrightarrow> d < 10 \<Longrightarrow> isDigit (digitChar d)"
proof -
  assume "0 \<le> d" "d < 10"
  then have "d = 0 \<or> d = 1 \<or> d = 2 \<or> d = 3 \<or> d = 4 \<or> d = 5 \<or> d = 6 \<or> d = 7 \<or> d = 8 \<or> d = 9"
    by arith
  then show ?thesis
    by (auto simp: isDigit_def digitChar_def)
qed

lemma digitsOf_isDigit: "0 \<le> n \<Longrightarrow> c \<in> set (digitsOf n) \<Longrightarrow> isDigit c"
proof (induction n rule: digitsOf.induct)
  case (1 n)
  show ?case
  proof (cases "n < 10")
    case True
    with "1.prems" show ?thesis
      by (simp add: digitsOf.simps [of n] digitChar_isDigit)
  next
    case False
    have m: "0 \<le> n mod 10" "n mod 10 < 10" by simp_all
    from False "1.prems" have "c \<in> set (digitsOf (n div 10)) \<or> c = digitChar (n mod 10)"
      by (auto simp add: digitsOf.simps [of n])
    then show ?thesis
    proof
      assume "c \<in> set (digitsOf (n div 10))"
      with "1.IH" [OF False] "1.prems"(1) show ?thesis by (simp add: pos_imp_zdiv_nonneg_iff)
    next
      assume "c = digitChar (n mod 10)"
      with m show ?thesis by (simp add: digitChar_isDigit)
    qed
  qed
qed

lemma not_isDigit_dot: "\<not> isDigit 0x2E"
  by (simp add: isDigit_def)

lemma digitsOf_no_dot: "0 \<le> n \<Longrightarrow> 0x2E \<notin> set (digitsOf n)"
  using digitsOf_isDigit not_isDigit_dot by blast

lemma stripZeros_nonneg: "0 \<le> n \<Longrightarrow> 0 \<le> stripZeros n"
proof (induction n rule: stripZeros.induct)
  case (1 n)
  show ?case
  proof (cases "0 < n \<and> n mod 10 = 0")
    case True
    with "1.IH" "1.prems" show ?thesis
      by (simp add: stripZeros.simps [of n] pos_imp_zdiv_nonneg_iff)
  next
    case False
    with "1.prems" show ?thesis by (auto simp add: stripZeros.simps [of n])
  qed
qed

lemma scaled_nonneg: "0 \<le> p \<Longrightarrow> 0 < q \<Longrightarrow> 0 \<le> scaled p q ex"
  by (simp add: scaled_def pos_imp_zdiv_nonneg_iff)

lemma shortest_nonneg: "0 \<le> p \<Longrightarrow> 0 < q \<Longrightarrow> 0 \<le> fst (shortest fuel x p q n k)"
proof (induction fuel arbitrary: k)
  case 0
  then show ?case by (simp add: scaled_nonneg)
next
  case (Suc fuel)
  from Suc.prems have "0 \<le> scaled p q (n - k)" by (rule scaled_nonneg)
  with Suc show ?case by (simp add: Let_def)
qed

lemma count_dot_digits: "0x2E \<notin> set ds \<Longrightarrow> atMostOneDot (renderNumber ds n)"
proof -
  assume a: "0x2E \<notin> set ds"
  have t: "\<And>j. count_list (take j ds) 0x2E = 0" "\<And>j. count_list (drop j ds) 0x2E = 0"
    using a by (auto simp: count_list_0_iff dest: in_set_takeD in_set_dropD)
  have d: "count_list ds 0x2E = 0" using a by (simp add: count_list_0_iff)
  have z: "\<And>j. count_list (replicate j (0x30 :: 16 word)) 0x2E = 0"
    by (simp add: count_list_0_iff)
  have e: "count_list (digitsOf \<bar>n - 1\<bar>) 0x2E = 0"
    using digitsOf_no_dot [of "\<bar>n - 1\<bar>"] by (simp add: count_list_0_iff)
  show ?thesis
    by (simp add: atMostOneDot_def renderNumber_def Let_def t d z e)
qed

lemma div_pow2_pos: "0 < m \<Longrightarrow> m mod 2 ^ k = 0 \<Longrightarrow> 0 < m div (2 ^ k :: int)"
proof -
  assume m: "0 < m" and d: "m mod 2 ^ k = 0"
  have "(2 ^ k :: int) dvd m" using d by (simp add: dvd_eq_mod_eq_0)
  then have "(2 ^ k :: int) \<le> m" using m by (rule zdvd_imp_le)
  then show ?thesis by (simp add: pos_imp_zdiv_pos_iff)
qed

lemma scale2_pos: "0 < m \<Longrightarrow> scale2 m e = (p, q) \<Longrightarrow> 0 < p \<and> 0 < q"
  by (auto simp: scale2_def div_pow2_pos split: if_splits)

lemma numberDigits_no_dot: "0 < m \<Longrightarrow> numberDigits m e = (ds, n) \<Longrightarrow> 0x2E \<notin> set ds"
proof -
  assume m: "0 < m" and nd: "numberDigits m e = (ds, n)"
  obtain p q where pq: "scale2 m e = (p, q)" by (cases "scale2 m e")
  with m have pos: "0 < p" "0 < q" using scale2_pos by blast+
  obtain s ex where sh: "shortest 800 (Fin False m e) p q (decExp p q) 1 = (s, ex)"
    by (cases "shortest 800 (Fin False m e) p q (decExp p q) 1")
  have "0 \<le> s" using shortest_nonneg [of p q 800 "Fin False m e" "decExp p q" 1] pos sh by simp
  then have "0 \<le> stripZeros s" by (rule stripZeros_nonneg)
  moreover have "ds = digitsOf (stripZeros s)" using nd pq sh by (simp add: numberDigits_def)
  ultimately show ?thesis using digitsOf_no_dot by simp
qed

lemma numberToString_dots: "atMostOneDot (numberToString x)"
proof (cases x)
  case NaN
  then show ?thesis by (simp add: atMostOneDot_def numberToString_def js_def)
next
  case (Infinite s)
  then show ?thesis by (simp add: atMostOneDot_def numberToString_def js_def)
next
  case (Fin s m e)
  show ?thesis
  proof (cases "m \<le> 0")
    case True
    with Fin show ?thesis by (simp add: atMostOneDot_def numberToString_def js_def)
  next
    case False
    obtain ds n where nd: "numberDigits m e = (ds, n)" by (cases "numberDigits m e")
    with False have "0x2E \<notin> set ds" using numberDigits_no_dot [of m e ds n] by simp
    then have "atMostOneDot (renderNumber ds n)" by (rule count_dot_digits)
    with Fin False nd show ?thesis by (simp add: numberToString_def atMostOneDot_def)
  qed
qed

lemma formatResult_dots: "atMostOneDot (formatResult x)"
  unfolding formatResult_def
  by (cases "isInteger x") (simp_all only: if_True if_False numberToString_dots)


lemma appendDigit_dots:
  "isDigitInput d \<Longrightarrow> atMostOneDot (current s) \<Longrightarrow> atMostOneDot (current (appendDigit d s))"
  by (auto simp: atMostOneDot_def appendDigit_def isDigitInput_def refreshDisplay_def js_def
      count_list_0_iff not_isDigit_dot
      split: list.splits)

lemma appendDigits_dots:
  "\<forall>d\<in>set ds. isDigitInput d \<Longrightarrow> atMostOneDot (current s)
   \<Longrightarrow> atMostOneDot (current (foldl (\<lambda>s d. appendDigit d s) s ds))"
  by (induction ds arbitrary: s) (simp_all add: appendDigit_dots)

lemma butlast_dots: "count_list (butlast xs) c \<le> count_list xs c"
  by (induction xs) simp_all

lemma zero_dots: "atMostOneDot (js ''0'')"
  by (simp add: atMostOneDot_def js_def)

lemma step_dots:
  "wellFormed ev \<Longrightarrow> atMostOneDot (current s) \<Longrightarrow> atMostOneDot (current (step hst s ev))"
proof (cases ev)
  case (Digit d)
  assume "wellFormed ev" "atMostOneDot (current s)"
  with Digit show ?thesis by (simp add: step_def wellFormed_def appendDigit_dots)
next
  case (Operator op)
  then show ?thesis using zero_dots by (simp add: step_def applyOperator_def refreshDisplay_def)
next
  case Percent
  assume "atMostOneDot (current s)"
  with Percent show ?thesis
    using numberToString_dots
    by (simp add: step_def doPercent_def refreshDisplay_def showError_def split: sum.splits)
next
  case Back
  assume a: "atMostOneDot (current s)"
  have "atMostOneDot (butlast (current s))"
    using butlast_dots [of "current s" "0x2E"] a unfolding atMostOneDot_def by linarith
  with Back show ?thesis using zero_dots by (simp add: step_def backspace_def refreshDisplay_def)
next
  case Clear
  then show ?thesis using zero_dots by (simp add: step_def clearAll_def refreshDisplay_def)
next
  case Equals
  assume "atMostOneDot (current s)"
  with Equals show ?thesis
    using formatResult_dots
    by (simp add: step_def evaluateExpression_def tryEvaluate_def Let_def refreshDisplay_def
        showError_def split: sum.splits)
next
  case Timeout
  assume "atMostOneDot (current s)"
  with Timeout show ?thesis
    using zero_dots by (simp add: step_def errorTimeout_def refreshDisplay_def)
qed

lemma steps_dots:
  "\<forall>ev\<in>set evs. wellFormed ev \<Longrightarrow> atMostOneDot (current s)
   \<Longrightarrow> atMostOneDot (current (foldl (step hst) s evs))"
  by (induction evs arbitrary: s) (simp_all add: step_dots)

lemma run_dots: "\<forall>ev\<in>set evs. wellFormed ev \<Longrightarrow> atMostOneDot (current (run hst evs))"
  unfolding run_def by (rule steps_dots) (simp_all add: initial_def zero_dots)

text \<open>
  Claim C3, as the code has it. From the initial state, after any events the handlers
  can produce and then any sequence of digit inputs, \<open>current\<close> has at most one decimal
  point, for every host. A \<open>.\<close> input when \<open>current\<close> already has a point changes nothing
  provided no result has just been shown.
\<close>

theorem appendDigit_one_dot:
  "list_all wellFormed evs \<Longrightarrow> list_all isDigitInput ds \<Longrightarrow>
     atMostOneDot (current (foldl (\<lambda>s d. appendDigit d s) (run hst evs) ds))
     \<and> (\<not> consumedResult s \<and> 0x2E \<in> set (current s) \<longrightarrow> appendDigit (js ''.'') s = s)"
proof
  assume "list_all wellFormed evs" "list_all isDigitInput ds"
  then show "atMostOneDot (current (foldl (\<lambda>s d. appendDigit d s) (run hst evs) ds))"
    by (simp add: appendDigits_dots run_dots list_all_iff)
next
  show "\<not> consumedResult s \<and> 0x2E \<in> set (current s) \<longrightarrow> appendDigit (js ''.'') s = s"
    by (simp add: appendDigit_def)
qed

theorem appendDigit_one_dot_witness:
  "list_all wellFormed [Digit (js ''1''), Operator (js ''+''), Digit (js ''2'')]
   \<and> list_all isDigitInput [js ''.'', js ''5'', js ''.'']
   \<and> atMostOneDot (current (foldl (\<lambda>s d. appendDigit d s)
         (run hostEval [Digit (js ''1''), Operator (js ''+''), Digit (js ''2'')])
         [js ''.'', js ''5'', js ''.'']))
   \<and> \<not> consumedResult (run hostEval [Digit (js ''1''), Digit (js ''.''), Digit (js ''5'')])
   \<and> 0x2E \<in> set (current (run hostEval [Digit (js ''1''), Digit (js ''.''), Digit (js ''5'')]))
   \<and> appendDigit (js ''.'') (run hostEval [Digit (js ''1''), Digit (js ''.''), Digit (js ''5'')])
       = run hostEval [Digit (js ''1''), Digit (js ''.''), Digit (js ''5'')]"
proof -
  have h1: "list_all wellFormed [Digit (js ''1''), Operator (js ''+''), Digit (js ''2'')]"
    by code_simp
  have h2: "list_all isDigitInput [js ''.'', js ''5'', js ''.'']"
    by code_simp
  have h3: "\<not> consumedResult (run hostEval [Digit (js ''1''), Digit (js ''.''), Digit (js ''5'')])
     \<and> 0x2E \<in> set (current (run hostEval [Digit (js ''1''), Digit (js ''.''), Digit (js ''5'')]))"
    by code_simp
  show ?thesis
    using appendDigit_one_dot [OF h1 h2, of hostEval
        "run hostEval [Digit (js ''1''), Digit (js ''.''), Digit (js ''5'')]"] h1 h2 h3
    by blast
qed

text \<open>
  The claim as stated fails for the \<open>.\<close> input: after \<open>5 / 2 =\<close> the result \<open>2.5\<close> is shown,
  \<open>current\<close> has a decimal point, and a \<open>.\<close> input replaces it by \<open>0.\<close>
\<close>

theorem appendDigit_dot_after_result_counterexample:
  "0x2E \<in> set (current
       (run hostEval [Digit (js ''5''), Operator (js ''/''), Digit (js ''2''), Equals]))
   \<and> current (run hostEval [Digit (js ''5''), Operator (js ''/''), Digit (js ''2''), Equals])
       = js ''2.5''
   \<and> current (appendDigit (js ''.'')
       (run hostEval [Digit (js ''5''), Operator (js ''/''), Digit (js ''2''), Equals]))
       = js ''0.''"
  by code_simp

section \<open>Evaluation\<close>

text \<open>
  Claim C2, as the code has it. When the \<open>try\<close> block of \<open>evaluateExpression\<close> throws
  (invalid characters, malformed operators, too long, result not finite, or an exception
  of the host), \<open>Err\<close> is shown and a timeout is scheduled while \<open>current\<close>, \<open>history\<close> and
  \<open>consumedResult\<close> keep their values; when the timeout fires, \<open>current\<close> becomes \<open>"0"\<close> and
  the display is refreshed, \<open>history\<close> and \<open>consumedResult\<close> still unchanged.
\<close>

theorem evaluateExpression_failure:
  "tryEvaluate hst s = Inl e \<Longrightarrow>
     evaluateExpression hst s
       = s\<lparr>currentText := js ''Err'', errorTimers := Suc (errorTimers s)\<rparr>
     \<and> errorTimeout (evaluateExpression hst s)
       = s\<lparr>current := js ''0'', currentText := js ''0'', historyText := history s\<rparr>"
  by (simp add: evaluateExpression_def showError_def errorTimeout_def refreshDisplay_def)

theorem evaluateExpression_failure_witness:
  "tryEvaluate hostEval \<lparr>current = js ''0'', history = js ''5/'', consumedResult = False,
        currentText = js ''0'', historyText = js ''5/'', errorTimers = 0\<rparr> = Inl ResultNotFinite
   \<and> evaluateExpression hostEval \<lparr>current = js ''0'', history = js ''5/'',
        consumedResult = False, currentText = js ''0'', historyText = js ''5/'', errorTimers = 0\<rparr>
       = \<lparr>current = js ''0'', history = js ''5/'', consumedResult = False,
          currentText = js ''Err'', historyText = js ''5/'', errorTimers = 1\<rparr>
   \<and> errorTimeout (evaluateExpression hostEval \<lparr>current = js ''0'', history = js ''5/'',
        consumedResult = False, currentText = js ''0'', historyText = js ''5/'', errorTimers = 0\<rparr>)
       = \<lparr>current = js ''0'', history = js ''5/'', consumedResult = False,
          currentText = js ''0'', historyText = js ''5/'', errorTimers = 0\<rparr>"
proof -
  let ?s = "\<lparr>current = js ''0'', history = js ''5/'', consumedResult = False,
        currentText = js ''0'', historyText = js ''5/'', errorTimers = 0\<rparr>"
  have h: "tryEvaluate hostEval ?s = Inl ResultNotFinite" by code_simp
  note t = evaluateExpression_failure [OF h]
  have a: "evaluateExpression hostEval ?s
      = \<lparr>current = js ''0'', history = js ''5/'', consumedResult = False,
         currentText = js ''Err'', historyText = js ''5/'', errorTimers = 1\<rparr>"
    using conjunct1 [OF t] by simp
  have b: "errorTimeout (evaluateExpression hostEval ?s)
      = \<lparr>current = js ''0'', history = js ''5/'', consumedResult = False,
         currentText = js ''0'', historyText = js ''5/'', errorTimers = 0\<rparr>"
    using conjunct2 [OF t] by simp
  show ?thesis
    using h a b by blast
qed

text \<open>
  The claim as stated fails for \<open>consumedResult\<close>: after \<open>2 + 3 =\<close> a second \<open>=\<close> evaluates
  \<open>2+3 =5\<close>, which has an invalid character, and \<open>consumedResult\<close> stays true.
\<close>

theorem evaluateExpression_failure_counterexample:
  "tryEvaluate hostEval
       (run hostEval [Digit (js ''2''), Operator (js ''+''), Digit (js ''3''), Equals])
     = Inl InvalidCharacters
   \<and> consumedResult (evaluateExpression hostEval
       (run hostEval [Digit (js ''2''), Operator (js ''+''), Digit (js ''3''), Equals]))"
  by code_simp

lemma normalizeVisual_two_plus_three: "normalizeVisual (js ''2+'' @ js ''3'') = js ''2+3''"
  by code_simp

lemma safeEval_two_plus_three: "safeEval hostEval (js ''2+3'') = Inr (Num (numberOfInt 5))"
  by code_simp

lemma formatResult_five: "formatResult (numberOfInt 5) = js ''5''"
  by code_simp

lemma isFiniteNum_five: "isFiniteNum (numberOfInt 5)"
  by code_simp

text \<open>
  Claim C5. From a state with \<open>history = "2+"\<close> and \<open>current = "3"\<close>, \<open>evaluateExpression\<close>
  succeeds: \<open>current\<close> becomes \<open>"5"\<close>, \<open>history\<close> becomes \<open>"2+3 ="\<close>, \<open>consumedResult\<close>
  becomes true, and the display shows both.
\<close>

theorem evaluate_two_plus_three:
  "history s = js ''2+'' \<Longrightarrow> current s = js ''3'' \<Longrightarrow>
     tryEvaluate hostEval s
       = Inr (s\<lparr>history := js ''2+3 ='', current := js ''5'', consumedResult := True,
               currentText := js ''5'', historyText := js ''2+3 =''\<rparr>)
     \<and> evaluateExpression hostEval s
       = s\<lparr>history := js ''2+3 ='', current := js ''5'', consumedResult := True,
            currentText := js ''5'', historyText := js ''2+3 =''\<rparr>"
proof -
  assume a: "history s = js ''2+''" "current s = js ''3''"
  have n: "js ''2+3'' \<noteq> []" by (simp add: js_def)
  have e: "js ''2+3'' @ js '' ='' = js ''2+3 =''" by (simp add: js_def)
  show ?thesis
    using a n e
    by (simp add: evaluateExpression_def tryEvaluate_def normalizeVisual_two_plus_three
        safeEval_two_plus_three formatResult_five isFiniteNum_five Let_def toNumber_def
        refreshDisplay_def)
qed

theorem evaluate_two_plus_three_witness:
  "history \<lparr>current = js ''3'', history = js ''2+'', consumedResult = False,
        currentText = js ''3'', historyText = js ''2+'', errorTimers = 0\<rparr> = js ''2+''
   \<and> current \<lparr>current = js ''3'', history = js ''2+'', consumedResult = False,
        currentText = js ''3'', historyText = js ''2+'', errorTimers = 0\<rparr> = js ''3''
   \<and> evaluateExpression hostEval \<lparr>current = js ''3'', history = js ''2+'',
        consumedResult = False, currentText = js ''3'', historyText = js ''2+'', errorTimers = 0\<rparr>
       = \<lparr>current = js ''5'', history = js ''2+3 ='', consumedResult = True,
          currentText = js ''5'', historyText = js ''2+3 ='', errorTimers = 0\<rparr>"
proof -
  let ?s = "\<lparr>current = js ''3'', history = js ''2+'', consumedResult = False,
        currentText = js ''3'', historyText = js ''2+'', errorTimers = 0\<rparr>"
  have h1: "history ?s = js ''2+''" by simp
  have h2: "current ?s = js ''3''" by simp
  show ?thesis
    using evaluate_two_plus_three [OF h1 h2] by simp
qed

lemma safeEval_fifty: "safeEval hostEval (js ''50'') = Inr (Num (numberOfInt 50))"
  by code_simp

lemma fifty_percent: "numberToString (ddiv (numberOfInt 50) (numberOfInt 100)) = js ''0.5''"
  by code_simp

text \<open>
  Claim C7. \<open>doPercent\<close> evaluates \<open>current\<close> alone; when that succeeds with a value \<open>v\<close>,
  \<open>current\<close> becomes the string of \<open>v / 100\<close> and the display is refreshed, \<open>history\<close> and
  \<open>consumedResult\<close> unchanged. With \<open>current = "50"\<close> the new \<open>current\<close> is \<open>"0.5"\<close>.
\<close>

theorem doPercent_divides_by_100:
  "(safeEval hst (current s) = Inr v \<longrightarrow>
      doPercent hst s
        = s\<lparr>current := numberToString (ddiv (toNumber v) (numberOfInt 100)),
             currentText := numberToString (ddiv (toNumber v) (numberOfInt 100)),
             historyText := history s\<rparr>)
   \<and> (current s = js ''50'' \<longrightarrow>
        current (doPercent hostEval s) = js ''0.5''
        \<and> history (doPercent hostEval s) = history s)"
  by (simp add: doPercent_def refreshDisplay_def safeEval_fifty fifty_percent toNumber_def)

theorem doPercent_divides_by_100_witness:
  "safeEval hostEval (current \<lparr>current = js ''50'', history = js ''7*'', consumedResult = False,
        currentText = js ''50'', historyText = js ''7*'', errorTimers = 0\<rparr>)
     = Inr (Num (numberOfInt 50))
   \<and> doPercent hostEval \<lparr>current = js ''50'', history = js ''7*'', consumedResult = False,
        currentText = js ''50'', historyText = js ''7*'', errorTimers = 0\<rparr>
     = \<lparr>current = js ''0.5'', history = js ''7*'', consumedResult = False,
        currentText = js ''0.5'', historyText = js ''7*'', errorTimers = 0\<rparr>"
proof -
  let ?s = "\<lparr>current = js ''50'', history = js ''7*'', consumedResult = False,
        currentText = js ''50'', historyText = js ''7*'', errorTimers = 0\<rparr>"
  have h: "safeEval hostEval (current ?s) = Inr (Num (numberOfInt 50))"
    by (simp add: safeEval_fifty)
  show ?thesis
    using doPercent_divides_by_100 [of hostEval ?s "Num (numberOfInt 50)"] h
    by (simp add: fifty_percent toNumber_def)
qed

section \<open>The text of a result\<close>

subsection \<open>Rounding is exact on doubles with an integer value\<close>









lemma declen_nonpos: "x \<le> 0 \<Longrightarrow> declen x = 0"
  by (simp add: declen.simps [of x])

lemma declen_pos: "0 < x \<Longrightarrow> declen x = declen (x div 10) + 1"
  by (simp add: declen.simps [of x])

lemma declen_nonneg: "0 \<le> declen x"
proof (induction x rule: declen.induct)
  case (1 x)
  show ?case
  proof (cases "0 < x")
    case True
    with "1.IH" declen_pos [of x] show ?thesis by simp
  next
    case False
    then show ?thesis by (simp add: declen_nonpos)
  qed
qed

lemma declen_digit: "0 < x \<Longrightarrow> x < 10 \<Longrightarrow> declen x = 1"
  using declen_pos [of x] declen_nonpos [of "x div 10"] by simp

lemma declen_bounds: "0 < x \<Longrightarrow> 10 ^ nat (declen x - 1) \<le> x \<and> x < 10 ^ nat (declen x)"
proof (induction x rule: declen.induct)
  case (1 x)
  show ?case
  proof (cases "x < 10")
    case True
    with "1.prems" show ?thesis by (simp add: declen_digit)
  next
    case False
    then have p: "0 < x div 10" by simp
    from "1.IH" [OF "1.prems" p]
    have ih: "10 ^ nat (declen (x div 10) - 1) \<le> x div 10" "x div 10 < 10 ^ nat (declen (x div 10))"
      by simp_all
    have g: "1 \<le> declen (x div 10)"
      using declen_pos [OF p] declen_nonneg [of "x div 10 div 10"] by simp
    have e1: "nat (declen x - 1) = Suc (nat (declen (x div 10) - 1))"
      using g "1.prems" by (simp add: declen_pos [of x])
    have e2: "nat (declen x) = Suc (nat (declen (x div 10)))"
      using g "1.prems" by (simp add: declen_pos [of x])
    have "10 * 10 ^ nat (declen (x div 10) - 1) \<le> x" using ih(1) by linarith
    moreover have "x < 10 * 10 ^ nat (declen (x div 10))" using ih(2) by linarith
    ultimately show ?thesis by (simp add: e1 e2)
  qed
qed


lemma declen_ge: "(10::int) ^ j \<le> x \<Longrightarrow> int j + 1 \<le> declen x"
proof -
  assume l: "(10::int) ^ j \<le> x"
  moreover have "(0::int) < 10 ^ j" by simp
  ultimately have x: "0 < x" by linarith
  have "(10::int) ^ j < 10 ^ nat (declen x)" using declen_bounds [OF x] l by linarith
  then have "j < nat (declen x)" by simp
  then show ?thesis by linarith
qed












subsection \<open>Reading back what \<open>toFixed\<close> prints\<close>




















subsection \<open>Rounding gives a nearest double\<close>








subsection \<open>The digits found for a double\<close>














subsection \<open>The text of a result that is not an integer\<close>









subsection \<open>When the text is in plain notation\<close>











end
